theory Spec2Isabelle
  imports Main
begin

section \<open>JSON values\<close>

text \<open>
  The program keeps everything it exchanges with the remote model and with its own files
  as the values Python's \<^verbatim>\<open>json\<close> module produces: dicts (insertion ordered, here
  association lists), lists, strings, integers, booleans and \<^verbatim>\<open>None\<close>.
  Floating point numbers are outside the model.
\<close>

datatype json =
    JNull
  | JBool bool
  | JInt int
  | JStr string
  | JArr "json list"
  | JObj "(string \<times> json) list"

text \<open>Python truthiness of such a value (\<^verbatim>\<open>if x:\<close>).\<close>

fun truthy :: "json \<Rightarrow> bool" where
  "truthy JNull = False"
| "truthy (JBool b) = b"
| "truthy (JInt i) = (i \<noteq> 0)"
| "truthy (JStr s) = (s \<noteq> [])"
| "truthy (JArr xs) = (xs \<noteq> [])"
| "truthy (JObj kvs) = (kvs \<noteq> [])"

text \<open>
  A history entry as \<^verbatim>\<open>chat_with_ai\<close> and \<^verbatim>\<open>main\<close> build it:
  \<^verbatim>\<open>{"role": role, "parts": [{"text": text}]}\<close>.
\<close>

definition entry :: "string \<Rightarrow> string \<Rightarrow> json" where
  "entry role text =
     JObj [(''role'', JStr role), (''parts'', JArr [JObj [(''text'', JStr text)]])]"

section \<open>Small pieces of Python\<close>

text \<open>\<^verbatim>\<open>str(n)\<close> for a natural number.\<close>

function str_nat :: "nat \<Rightarrow> string" where
  "str_nat n = (if n < 10 then [''0123456789'' ! n] else str_nat (n div 10) @ [''0123456789'' ! (n mod 10)])"
  by pat_completeness auto
termination
  by (relation "measure id") auto

text \<open>
  \<^verbatim>\<open>s.lower()\<close> and \<^verbatim>\<open>s.replace(" ", "-")\<close>. Characters are bytes here, and only the
  ASCII capitals have a lower case.
\<close>

definition lower_char :: "char \<Rightarrow> char" where
  "lower_char c =
     (case map_of (zip ''ABCDEFGHIJKLMNOPQRSTUVWXYZ'' ''abcdefghijklmnopqrstuvwxyz'') c of
        None \<Rightarrow> c
      | Some l \<Rightarrow> l)"

definition lower :: "string \<Rightarrow> string" where
  "lower s = map lower_char s"

definition hyphenate :: "string \<Rightarrow> string" where
  "hyphenate s = map (\<lambda>c. if c = CHR '' '' then CHR ''-'' else c) s"

text \<open>\<^verbatim>\<open>', '.join(xs)\<close>.\<close>

fun join_comma :: "string list \<Rightarrow> string" where
  "join_comma [] = []"
| "join_comma [x] = x"
| "join_comma (x # y # ys) = x @ '', '' @ join_comma (y # ys)"

definition or_default :: "'a option \<Rightarrow> 'a \<Rightarrow> 'a" where
  "or_default v d = (case v of None \<Rightarrow> d | Some x \<Rightarrow> x)"

text \<open>A piece of text between single quotes, as the messages show names.\<close>

definition quoted :: "string \<Rightarrow> string" where
  "quoted t = [CHR 0x27] @ t @ [CHR 0x27]"

section \<open>Exceptions and outcomes\<close>

datatype exn =
    FileNotFoundError
  | FileExistsError
  | NotADirectoryError
  | IsADirectoryError
  | JSONDecodeError
  | AttributeError
  | TypeError
  | EOFError
  | UnboundLocalError
  | OtherError string

text \<open>
  A call either returns a value or lets an exception escape to its caller. Nothing in
  \<^verbatim>\<open>main\<close> catches, so an exception that escapes \<^verbatim>\<open>execute_action\<close> or
  \<^verbatim>\<open>chat_with_ai\<close> ends the process with a traceback.
\<close>

datatype 'a outcome = Returned 'a | Raised exn

text \<open>\<^verbatim>\<open>list.append\<close>; any other kind of value has no such method.\<close>

fun py_append :: "json \<Rightarrow> json \<Rightarrow> exn + json" where
  "py_append (JArr xs) x = Inr (JArr (xs @ [x]))"
| "py_append _ x = Inl AttributeError"

section \<open>Paths\<close>

text \<open>
  A \<^verbatim>\<open>pathlib.Path\<close> is its list of components below the filesystem root. Joining
  with a string splits it at the separator and drops empty and \<^verbatim>\<open>.\<close> components, as
  pathlib does; a string that starts with the separator replaces the base. A component
  \<^verbatim>\<open>..\<close> is kept as it is, as pathlib keeps it, and the filesystem below treats
  it as an ordinary name.
\<close>

type_synonym path = "string list"

fun split_sep :: "string \<Rightarrow> string list" where
  "split_sep [] = [[]]"
| "split_sep (c # cs) =
     (if c = CHR ''/'' then [] # split_sep cs
      else (case split_sep cs of [] \<Rightarrow> [[c]] | w # ws \<Rightarrow> (c # w) # ws))"

definition parts :: "string \<Rightarrow> path" where
  "parts s = filter (\<lambda>c. c \<noteq> [] \<and> c \<noteq> ''.'') (split_sep s)"

definition joinpath :: "path \<Rightarrow> string \<Rightarrow> path" where
  "joinpath base s = (if s \<noteq> [] \<and> hd s = CHR ''/'' then parts s else base @ parts s)"

text \<open>\<^verbatim>\<open>str(path)\<close>, \<^verbatim>\<open>path.parent\<close> and \<^verbatim>\<open>path.name\<close>.\<close>

definition path_str :: "path \<Rightarrow> string" where
  "path_str p = (if p = [] then ''/'' else concat (map (\<lambda>c. CHR ''/'' # c) p))"

definition parent :: "path \<Rightarrow> path" where
  "parent p = butlast p"

definition name :: "path \<Rightarrow> string" where
  "name p = (if p = [] then [] else last p)"

text \<open>The components pathlib can produce: not empty, not \<^verbatim>\<open>.\<close>, without separator.\<close>

definition component :: "string \<Rightarrow> bool" where
  "component c = (c \<noteq> [] \<and> c \<noteq> ''.'' \<and> CHR ''/'' \<notin> set c)"

section \<open>The filesystem\<close>

text \<open>
  A file holds either the text that \<^verbatim>\<open>f.write\<close> put there or the document that
  \<^verbatim>\<open>json.dump\<close> put there. The text encoding of a document belongs to Python's
  json library and is not modelled: \<^verbatim>\<open>json.load\<close> of a dumped document is that
  document, and of a text file is whatever the library's parser, a parameter of the
  model, makes of the text.
\<close>

datatype data = Text string | Json json

datatype node = Dir | File data

type_synonym filesystem = "path \<rightharpoonup> node"

definition node_at :: "filesystem \<Rightarrow> path \<Rightarrow> node option" where
  "node_at fs p = (if p = [] then Some Dir else fs p)"

text \<open>
  \<^verbatim>\<open>Path.mkdir(parents=True, exist_ok=True)\<close>: every missing directory on the way is
  created; a directory that exists is accepted; a file in the way raises. Where every
  entry lies in a directory, a file in the way is met before anything is created.
\<close>

fun mkdirs :: "filesystem \<Rightarrow> path \<Rightarrow> string list \<Rightarrow> exn + filesystem" where
  "mkdirs fs pre [] = Inr fs"
| "mkdirs fs pre (c # cs) =
     (case fs (pre @ [c]) of
        None \<Rightarrow> mkdirs (fs(pre @ [c] \<mapsto> Dir)) (pre @ [c]) cs
      | Some Dir \<Rightarrow> mkdirs fs (pre @ [c]) cs
      | Some (File x) \<Rightarrow> Inl (if cs = [] then FileExistsError else NotADirectoryError))"

definition mkdir_parents :: "filesystem \<Rightarrow> path \<Rightarrow> exn + filesystem" where
  "mkdir_parents fs p = mkdirs fs [] p"

text \<open>
  \<^verbatim>\<open>open(p, 'w')\<close> followed by the writes and the close: the parent must be a
  directory and the target must not be one; the file is created or replaced.
\<close>

definition write_file :: "filesystem \<Rightarrow> path \<Rightarrow> data \<Rightarrow> exn + filesystem" where
  "write_file fs p c =
     (if p = [] then Inl IsADirectoryError
      else (case node_at fs (parent p) of
              None \<Rightarrow> Inl FileNotFoundError
            | Some (File x) \<Rightarrow> Inl NotADirectoryError
            | Some Dir \<Rightarrow>
                (case fs p of
                   Some Dir \<Rightarrow> Inl IsADirectoryError
                 | _ \<Rightarrow> Inr (fs(p \<mapsto> File c)))))"

section \<open>Process state\<close>

text \<open>
  The globals \<^verbatim>\<open>root_dir\<close> and \<^verbatim>\<open>chat_history\<close>, and the world the process
  acts on: its working directory, the filesystem, the operator's pending console input,
  the console output so far, the delays slept and the number of HTTP requests issued.
\<close>

datatype console =
    Line string
  | Line_exn string exn
  | Prompt string
  | Tree_listing path

record state =
  cwd :: path
  root_dir :: "path option"
  chat_history :: json
  fs :: filesystem
  stdin :: "string list"
  out :: "console list"
  slept :: "nat list"
  posts :: nat

definition print_line :: "string \<Rightarrow> state \<Rightarrow> state" where
  "print_line l s = s\<lparr>out := out s @ [Line l]\<rparr>"

definition print_exn :: "string \<Rightarrow> exn \<Rightarrow> state \<Rightarrow> state" where
  "print_exn l e s = s\<lparr>out := out s @ [Line_exn l e]\<rparr>"

text \<open>\<^verbatim>\<open>input(prompt)\<close>: the prompt is shown, one line is consumed; end of input raises.\<close>

definition input :: "string \<Rightarrow> state \<Rightarrow> string outcome \<times> state" where
  "input prompt s =
     (let s1 = s\<lparr>out := out s @ [Prompt prompt]\<rparr> in
      case stdin s1 of
        [] \<Rightarrow> (Raised EOFError, s1)
      | l # ls \<Rightarrow> (Returned l, s1\<lparr>stdin := ls\<rparr>))"

definition MILESTONE_FILE :: string where
  "MILESTONE_FILE = ''milestones.json''"

definition STATE_FILE :: string where
  "STATE_FILE = ''project_config.json''"

section \<open>Saving and loading the project state\<close>

text \<open>The dict that \<^verbatim>\<open>save_project_state\<close> dumps.\<close>

definition state_doc :: "path \<Rightarrow> json \<Rightarrow> json" where
  "state_doc r h = JObj [(''root_dir'', JStr (path_str r)), (''chat_history'', h)]"

text \<open>
  \<^verbatim>\<open>save_project_state\<close>: nothing happens while \<^verbatim>\<open>root_dir\<close> is \<^verbatim>\<open>None\<close>
  (a Path object is always truthy); otherwise the state file, a name relative to the
  working directory, is opened for writing and the dict is dumped.
\<close>

definition save_project_state :: "state \<Rightarrow> unit outcome \<times> state" where
  "save_project_state s =
     (case root_dir s of
        None \<Rightarrow> (Returned (), s)
      | Some r \<Rightarrow>
          (case write_file (fs s) (joinpath (cwd s) STATE_FILE)
                  (Json (state_doc r (chat_history s))) of
             Inl e \<Rightarrow> (Raised e, s)
           | Inr fs' \<Rightarrow> (Returned (), s\<lparr>fs := fs'\<rparr>)))"

text \<open>\<^verbatim>\<open>json.load\<close> of an open file.\<close>

definition json_load :: "(string \<Rightarrow> json option) \<Rightarrow> data \<Rightarrow> exn + json" where
  "json_load loads c =
     (case c of
        Json v \<Rightarrow> Inr v
      | Text t \<Rightarrow> (case loads t of None \<Rightarrow> Inl JSONDecodeError | Some v \<Rightarrow> Inr v))"

text \<open>\<^verbatim>\<open>f"{root_dir}"\<close>.\<close>

definition show_root :: "path option \<Rightarrow> string" where
  "show_root r = (case r of None \<Rightarrow> ''None'' | Some p \<Rightarrow> path_str p)"

text \<open>
  The assignment \<^verbatim>\<open>root_dir = Path(root_dir_str)\<close> under its guard
  \<^verbatim>\<open>if root_dir_str:\<close>. A relative path string found in the file is resolved
  against the working directory, as the operating system resolves it on use; a truthy
  value that is not a string is refused by \<^verbatim>\<open>Path\<close>.
\<close>

definition load_root :: "path \<Rightarrow> json \<Rightarrow> path option \<Rightarrow> exn + path option" where
  "load_root wd root_dir_str r =
     (case root_dir_str of
        JStr t \<Rightarrow> Inr (if t \<noteq> [] then Some (joinpath wd t) else r)
      | v \<Rightarrow> (if truthy v then Inl TypeError else Inr r))"

definition dict_get :: "(string \<times> json) list \<Rightarrow> string \<Rightarrow> json \<Rightarrow> json" where
  "dict_get kvs k d = (case map_of kvs k of None \<Rightarrow> d | Some v \<Rightarrow> v)"

definition load_project_state :: "(string \<Rightarrow> json option) \<Rightarrow> state \<Rightarrow> bool outcome \<times> state" where
  "load_project_state loads s =
     (case node_at (fs s) (joinpath (cwd s) STATE_FILE) of
        None \<Rightarrow> (Returned False, s)
      | Some Dir \<Rightarrow> (Raised IsADirectoryError, s)
      | Some (File c) \<Rightarrow>
          (case json_load loads c of
             Inl e \<Rightarrow> (Raised e, s)
           | Inr (JObj kvs) \<Rightarrow>
               (case load_root (cwd s) (dict_get kvs ''root_dir'' JNull) (root_dir s) of
                  Inl e \<Rightarrow> (Raised e, s)
                | Inr r \<Rightarrow>
                    (let s1 = s\<lparr>root_dir := r, chat_history := dict_get kvs ''chat_history'' (JArr [])\<rparr>;
                         s2 = print_line (''Loaded project state from '' @ quoted STATE_FILE
                                @ ''. Current project directory is: ''
                                @ show_root (root_dir s1)) s1
                     in (Returned True, print_line ''Resuming previous conversation...'' s2)))
           | Inr _ \<Rightarrow> (Raised AttributeError, s)))"

section \<open>Actions\<close>

text \<open>
  An action is a command with the payload of the shape the system prompt prescribes for
  it. The string fields are the JSON strings of those shapes; a key that is absent is
  \<open>None\<close>. The payload of \<^verbatim>\<open>milestones\<close> is dumped as it comes, so it stays a JSON
  value; the payload of \<^verbatim>\<open>list_files\<close> is never read.
\<close>

record slide =
  heading :: "string option"
  content :: "string option"

record plan =
  title :: "string option"
  audience :: "string option"
  slides :: "slide list option"

datatype action =
    Init_project "string option"
  | Create_files "(string \<times> string) list"
  | List_files
  | Milestones json
  | Create_presentation_plan plan
  | No_action
  | Unknown_command string

definition CREATE_DIR :: string where
  "CREATE_DIR = ''__CREATE_DIR__''"

text \<open>The loop of the \<^verbatim>\<open>create_files\<close> branch over \<^verbatim>\<open>payload.items()\<close>.\<close>

fun create_items :: "path \<Rightarrow> (string \<times> string) list \<Rightarrow> state \<Rightarrow> unit outcome \<times> state" where
  "create_items root [] s = (Returned (), s)"
| "create_items root ((p, c) # rest) s =
     (let item_path = joinpath root p in
      if c = CREATE_DIR then
        (case mkdir_parents (fs s) item_path of
           Inl e \<Rightarrow> (Raised e, s)
         | Inr fs1 \<Rightarrow>
             create_items root rest
               (print_line (''  - Created directory: '' @ path_str item_path) (s\<lparr>fs := fs1\<rparr>)))
      else
        (case mkdir_parents (fs s) (parent item_path) of
           Inl e \<Rightarrow> (Raised e, s)
         | Inr fs1 \<Rightarrow>
             (case write_file fs1 item_path (Text c) of
                Inl e \<Rightarrow> (Raised e, s\<lparr>fs := fs1\<rparr>)
              | Inr fs2 \<Rightarrow>
                  create_items root rest
                    (print_line (''  - Created file: '' @ path_str item_path) (s\<lparr>fs := fs2\<rparr>)))))"

text \<open>The Markdown document of the \<^verbatim>\<open>create_presentation_plan\<close> branch.\<close>

definition slide_block :: "nat \<times> slide \<Rightarrow> string" where
  "slide_block x =
     (case x of (i, sl) \<Rightarrow>
        ''## Slide '' @ str_nat (i + 1) @ '': '' @ or_default (heading sl) ''Slide Heading''
        @ ''\<newline>\<newline>''
        @ or_default (content sl) ''Slide content here.'' @ ''\<newline>\<newline>---\<newline>\<newline>'')"

definition plan_text :: "plan \<Rightarrow> string" where
  "plan_text p =
     ''# '' @ or_default (title p) ''Presentation Title'' @ ''\<newline>''
     @ ''**Audience:** '' @ or_default (audience p) ''General'' @ ''\<newline>\<newline>---\<newline>\<newline>''
     @ concat (map slide_block (enumerate 0 (or_default (slides p) [])))"

definition title_slug :: "plan \<Rightarrow> string" where
  "title_slug p = lower (hyphenate (or_default (title p) ''presentation-plan''))"

text \<open>
  \<^verbatim>\<open>execute_action\<close>. The listing that \<^verbatim>\<open>list_files\<close> prints is recorded as one
  console event; its text is not computed.
\<close>

fun execute_action :: "action \<Rightarrow> state \<Rightarrow> unit outcome \<times> state" where
  "execute_action (Init_project project_name) s =
     (case (if project_name = None \<or> project_name = Some []
            then input ''What's the name of the new project? '' s
            else (Returned (or_default project_name []), s)) of
        (Raised e, s1) \<Rightarrow> (Raised e, s1)
      | (Returned n, s1) \<Rightarrow>
          (let r = joinpath (cwd s1) n; s2 = s1\<lparr>root_dir := Some r\<rparr> in
           case mkdir_parents (fs s2) r of
             Inl e \<Rightarrow> (Raised e, s2)
           | Inr fs1 \<Rightarrow>
               save_project_state
                 (print_line (''Project directory created at: '' @ path_str r) (s2\<lparr>fs := fs1\<rparr>))))"
| "execute_action (Create_files payload) s =
     (case root_dir s of
        None \<Rightarrow>
          (Returned (),
           print_line (''Error: You must first initialize a project. ''
                       @ ''Please ask me to 'init_project' with a name.'') s)
      | Some r \<Rightarrow> create_items r payload s)"
| "execute_action List_files s =
     (case root_dir s of
        None \<Rightarrow> (Returned (), print_line ''Please create a project first.'' s)
      | Some r \<Rightarrow>
          (let s1 = print_line (''Directory structure for '' @ quoted (name r) @ '':'') s
           in (Returned (), s1\<lparr>out := out s1 @ [Tree_listing r]\<rparr>)))"
| "execute_action (Milestones payload) s =
     (case root_dir s of
        None \<Rightarrow> (Returned (), print_line ''Please create a project first.'' s)
      | Some r \<Rightarrow>
          (let milestone_path = joinpath r MILESTONE_FILE in
           case write_file (fs s) milestone_path (Json payload) of
             Inl e \<Rightarrow> (Returned (), print_exn ''Error writing to milestone file: '' e s)
           | Inr fs1 \<Rightarrow>
               (Returned (),
                print_line (''  - Updated milestones in '' @ quoted (path_str milestone_path))
                  (s\<lparr>fs := fs1\<rparr>))))"
| "execute_action (Create_presentation_plan payload) s =
     (case root_dir s of
        None \<Rightarrow> (Returned (), print_line ''Please create a project first.'' s)
      | Some r \<Rightarrow>
          (let presentation_path = joinpath r (title_slug payload @ ''.md'') in
           case write_file (fs s) presentation_path (Text (plan_text payload)) of
             Inl e \<Rightarrow> (Returned (), print_exn ''Error writing presentation plan: '' e s)
           | Inr fs1 \<Rightarrow>
               (Returned (),
                print_line (''  - Created presentation plan at: ''
                            @ quoted (path_str presentation_path))
                  (s\<lparr>fs := fs1\<rparr>))))"
| "execute_action No_action s = (Returned (), s)"
| "execute_action (Unknown_command command) s =
     (Returned (), print_line (''Unknown command received from AI: '' @ command) s)"

section \<open>The conversation engine\<close>

text \<open>
  What one pass through the \<^verbatim>\<open>try\<close> body of \<^verbatim>\<open>chat_with_ai\<close> meets, by the
  handler that takes it:
  \<^item> \<open>Post_raised\<close>: \<^verbatim>\<open>requests.post\<close> itself raised a \<^verbatim>\<open>RequestException\<close>
    (timeout, connection error), so nothing was assigned to \<^verbatim>\<open>response\<close>;
  \<^item> \<open>Request_error\<close>: a response with this body arrived and a \<^verbatim>\<open>RequestException\<close>
    was raised after the assignment (\<^verbatim>\<open>raise_for_status\<close> on a status that is not 2xx);
  \<^item> \<open>Unparsable\<close>: a response arrived and reading the reply out of it raised
    \<^verbatim>\<open>json.JSONDecodeError\<close> or \<^verbatim>\<open>KeyError\<close>;
  \<^item> \<open>Uncaught\<close>: a response arrived and reading it raised an exception that neither
    handler names (\<^verbatim>\<open>IndexError\<close> on an empty candidate list, say);
  \<^item> \<open>Valid\<close>: a response arrived, with this raw reply text and its parsed value.
  The text of the exception is the second field where a message shows it.
\<close>

datatype 'r reply =
    Post_raised string
  | Request_error string string
  | Unparsable string string
  | Uncaught string exn
  | Valid string string 'r

definition retry_prompt :: "string \<Rightarrow> string" where
  "retry_prompt e =
     ''The previous response was not a valid JSON object. Please re-format your response ''
     @ ''into a single JSON object with 'message' and 'action' keys. The error was: '' @ e"

definition sleep :: "nat \<Rightarrow> state \<Rightarrow> state" where
  "sleep d s = s\<lparr>slept := slept s @ [d]\<rparr>"

text \<open>
  The handler of \<^verbatim>\<open>RequestException\<close> after \<^verbatim>\<open>retries += 1\<close>: the local
  \<^verbatim>\<open>response\<close> is read, which is an error while nothing has been assigned to it in
  this call; \<open>None\<close> stands for that unbound local, \<open>Some body\<close> for the response
  last assigned.
\<close>

definition transport_failed :: "nat \<Rightarrow> string \<Rightarrow> string option \<Rightarrow> state \<Rightarrow> unit outcome \<times> state" where
  "transport_failed retries e response s =
     (let s1 = print_line (''API communication error (attempt '' @ str_nat retries @ ''/5): '' @ e) s in
      case response of
        None \<Rightarrow> (Raised UnboundLocalError, s1)
      | Some body \<Rightarrow>
          (Returned (),
           sleep (2 ^ retries)
             (if body \<noteq> [] then print_line (''Server response content: '' @ body) s1 else s1)))"

text \<open>
  The \<^verbatim>\<open>while retries < 5\<close> loop. The remote end answers the n-th request of the
  process, given the contents sent, which are the history at that moment (the request
  body holds the history list itself, not a copy). The loop need not end, so its result
  is optional: \<open>None\<close> is a loop that runs forever.
\<close>

partial_function (option) chat_loop ::
  "(nat \<Rightarrow> json \<Rightarrow> 'r reply) \<Rightarrow> nat \<Rightarrow> string option \<Rightarrow> state \<Rightarrow> ('r option outcome \<times> state) option"
where
  "chat_loop remote retries response s =
     (if retries < 5 then
        (case remote (posts s) (chat_history s) of
           Post_raised e \<Rightarrow>
             (case transport_failed (retries + 1) e response (s\<lparr>posts := posts s + 1\<rparr>) of
                (Raised x, s1) \<Rightarrow> Some (Raised x, s1)
              | (Returned u, s1) \<Rightarrow> chat_loop remote (retries + 1) response s1)
         | Request_error body e \<Rightarrow>
             (case transport_failed (retries + 1) e (Some body) (s\<lparr>posts := posts s + 1\<rparr>) of
                (Raised x, s1) \<Rightarrow> Some (Raised x, s1)
              | (Returned u, s1) \<Rightarrow> chat_loop remote (retries + 1) (Some body) s1)
         | Unparsable body e \<Rightarrow>
             (let s1 = print_line (''Error parsing API response: '' @ e) (s\<lparr>posts := posts s + 1\<rparr>) in
              case py_append (chat_history s1) (entry ''user'' (retry_prompt e)) of
                Inl x \<Rightarrow> Some (Raised x, s1)
              | Inr h \<Rightarrow> chat_loop remote retries (Some body) (s1\<lparr>chat_history := h\<rparr>))
         | Uncaught body x \<Rightarrow> Some (Raised x, s\<lparr>posts := posts s + 1\<rparr>)
         | Valid body raw_content parsed_json \<Rightarrow>
             (case py_append (chat_history s) (entry ''model'' raw_content) of
                Inl x \<Rightarrow> Some (Raised x, s\<lparr>posts := posts s + 1\<rparr>)
              | Inr h \<Rightarrow>
                  Some (Returned (Some parsed_json), s\<lparr>posts := posts s + 1, chat_history := h\<rparr>)))
      else Some (Returned None,
                 print_line ''Failed to get a valid response after multiple retries.'' s))"

definition chat_with_ai ::
  "(nat \<Rightarrow> json \<Rightarrow> 'r reply) \<Rightarrow> string \<Rightarrow> state \<Rightarrow> ('r option outcome \<times> state) option"
where
  "chat_with_ai remote user_input s =
     (case py_append (chat_history s) (entry ''user'' user_input) of
        Inl x \<Rightarrow> Some (Raised x, s)
      | Inr h \<Rightarrow> chat_loop remote 0 None (s\<lparr>chat_history := h\<rparr>))"

section \<open>The approval gate and one turn of the main loop\<close>

text \<open>
  The reply the model is asked for: a message, the approval flag
  (\<^verbatim>\<open>response.get('requires_approval', False)\<close>) and the action, \<open>None\<close> when the key is
  absent or its value is falsy.
\<close>

record action_response =
  message :: string
  requires_approval :: bool
  action :: "action option"

text \<open>The description \<^verbatim>\<open>main\<close> derives from the command and its payload.\<close>

definition describe_files :: "(string \<times> string) list \<Rightarrow> string" where
  "describe_files payload =
     (let files_to_create = map fst (filter (\<lambda>(p, c). c \<noteq> CREATE_DIR) payload);
          dirs_to_create = map fst (filter (\<lambda>(p, c). c = CREATE_DIR) payload)
      in if files_to_create \<noteq> [] \<and> dirs_to_create \<noteq> []
         then ''create the following directories: '' @ join_comma dirs_to_create
              @ '' and files: '' @ join_comma files_to_create @ ''.''
         else if files_to_create \<noteq> []
         then ''create the following files: '' @ join_comma files_to_create @ ''.''
         else if dirs_to_create \<noteq> []
         then ''create the following directories: '' @ join_comma dirs_to_create @ ''.''
         else [])"

fun action_description :: "action \<Rightarrow> string" where
  "action_description (Init_project project_name) =
     ''create the project directory named '' @ quoted (or_default project_name ''None'') @ ''.''"
| "action_description (Create_files payload) = describe_files payload"
| "action_description (Milestones payload) = ''update the project milestones.''"
| "action_description (Create_presentation_plan payload) =
     ''create a Markdown file for the '' @ quoted (or_default (title payload) ''presentation plan'')
     @ '' presentation.''"
| "action_description _ = []"

definition DECLINED :: string where
  "DECLINED = ''I did not approve the previous action. Let's try something else.''"

text \<open>\<^verbatim>\<open>execute_action(action)\<close> followed by \<^verbatim>\<open>save_project_state()\<close>.\<close>

definition execute_and_save :: "action \<Rightarrow> state \<Rightarrow> unit outcome \<times> state" where
  "execute_and_save a s =
     (case execute_action a s of
        (Raised e, s1) \<Rightarrow> (Raised e, s1)
      | (Returned u, s1) \<Rightarrow> save_project_state s1)"

text \<open>
  The body of the main loop after \<^verbatim>\<open>chat_with_ai\<close> has returned: \<open>None\<close> is a
  falsy return value.
\<close>

definition respond :: "action_response option \<Rightarrow> state \<Rightarrow> unit outcome \<times> state" where
  "respond response s =
     (case response of
        None \<Rightarrow> (Returned (), print_line ''Sorry, I encountered an error. Please try again.'' s)
      | Some r \<Rightarrow>
          (let s1 = print_line (''\<newline>AI: '' @ message r) s in
           case action r of
             None \<Rightarrow> (Returned (), s1)
           | Some a \<Rightarrow>
               if requires_approval r then
                 (let s2 = (if action_description a \<noteq> []
                            then print_line (''\<newline>With your approval, I will '' @ action_description a) s1
                            else s1) in
                  case input ''Do you approve this action? (y/n): '' s2 of
                    (Raised e, s3) \<Rightarrow> (Raised e, s3)
                  | (Returned approval, s3) \<Rightarrow>
                      if lower approval = ''y'' then execute_and_save a s3
                      else
                        (let s4 = print_line ''Action cancelled. Please provide new instructions.'' s3 in
                         case py_append (chat_history s4) (entry ''user'' DECLINED) of
                           Inl e \<Rightarrow> (Raised e, s4)
                         | Inr h \<Rightarrow> (Returned (), s4\<lparr>chat_history := h\<rparr>)))
               else execute_and_save a s1))"

section \<open>Concrete inputs\<close>

text \<open>
  A session in the working directory \<^verbatim>\<open>/home\<close> whose project \<^verbatim>\<open>/home/proj\<close> has been
  initialised, with one earlier user message in the history.
\<close>

definition demo :: state where
  "demo = \<lparr>cwd = [''home''], root_dir = Some [''home'', ''proj''],
            chat_history = JArr [entry ''user'' ''hello''],
            fs = [[''home''] \<mapsto> Dir, [''home'', ''proj''] \<mapsto> Dir],
            stdin = [], out = [], slept = [], posts = 0\<rparr>"

text \<open>A remote end whose every reply has a body that does not parse.\<close>

definition garbled :: "nat \<Rightarrow> json \<Rightarrow> action_response reply" where
  "garbled n contents = Unparsable ''<html>'' ''Expecting value: line 1 column 1 (char 0)''"

text \<open>A process that has just started: the globals have their initial values.\<close>

definition restarted :: "state \<Rightarrow> state" where
  "restarted s = s\<lparr>root_dir := None, chat_history := JArr [], stdin := [], out := []\<rparr>"

text \<open>A remote end that cannot be reached: every \<^verbatim>\<open>requests.post\<close> raises.\<close>

definition unreachable :: "nat \<Rightarrow> json \<Rightarrow> action_response reply" where
  "unreachable n contents = Post_raised ''Connection refused''"

text \<open>
  A \<^verbatim>\<open>create_files\<close> payload whose second path lies below the file that the first
  pair creates.
\<close>

definition clash :: "(string \<times> string) list" where
  "clash = [(''notes'', ''draft''), (''notes/todo.txt'', ''first''), (''README.md'', ''# proj'')]"

text \<open>The payloads of the examples: a presentation plan and two milestone sets.\<close>

definition q3_review :: plan where
  "q3_review = \<lparr>title = Some ''Q3 Review'', audience = Some ''Execs'',
                 slides = Some [\<lparr>heading = Some ''Intro'', content = Some ''Hello''\<rparr>]\<rparr>"

definition mvp :: json where
  "mvp = JObj [(''milestones'',
                JArr [JObj [(''name'', JStr ''MVP''), (''status'', JStr ''In Progress''),
                            (''notes'', JStr ''half done'')]])]"

definition backlog :: json where
  "backlog = JObj [(''milestones'',
                    JArr [JObj [(''name'', JStr ''Beta''), (''status'', JStr ''Not Started''),
                                (''notes'', JStr '''')]])]"

text \<open>The commands whose branch starts with the check \<^verbatim>\<open>if not root_dir\<close>.\<close>

fun needs_root :: "action \<Rightarrow> bool" where
  "needs_root (Create_files payload) = True"
| "needs_root List_files = True"
| "needs_root (Milestones payload) = True"
| "needs_root (Create_presentation_plan payload) = True"
| "needs_root _ = False"

text \<open>A payload that asks for a directory and for a file in it, and a reply that proposes it.\<close>

definition starter :: "(string \<times> string) list" where
  "starter = [(''src'', CREATE_DIR), (''src/main.py'', ''print(1)'')]"

definition proposal :: action_response where
  "proposal = \<lparr>message = ''I can set that up.'', requires_approval = True,
                action = Some (Create_files starter)\<rparr>"

text \<open>
  What the state file holds, and whether it holds the state as it is in memory: the root
  directory and the history of this moment.
\<close>

definition on_disk :: "state \<Rightarrow> node option" where
  "on_disk s = fs s (joinpath (cwd s) STATE_FILE)"

definition persisted :: "state \<Rightarrow> bool" where
  "persisted s =
     (case root_dir s of
        None \<Rightarrow> False
      | Some r \<Rightarrow> on_disk s = Some (File (Json (state_doc r (chat_history s)))))"

text \<open>
  The session after a save, with the operator about to answer \<^verbatim>\<open>n\<close>; and a session in
  which no project has been initialised yet.
\<close>

definition asked :: state where
  "asked = demo\<lparr>fs := (fs demo)([''home'', ''project_config.json''] \<mapsto>
                       File (Json (state_doc [''home'', ''proj''] (chat_history demo)))),
                 stdin := [''n'']\<rparr>"

definition empty_home :: state where
  "empty_home = \<lparr>cwd = [''home''], root_dir = None, chat_history = JArr [entry ''user'' ''hello''],
                  fs = [[''home''] \<mapsto> Dir], stdin = [], out = [], slept = [], posts = 0\<rparr>"

text \<open>
  A reply whose action needs no approval, and the session after a save with the operator
  about to answer \<^verbatim>\<open>Y\<close>.
\<close>

definition report :: action_response where
  "report = \<lparr>message = ''Milestones noted.'', requires_approval = False,
              action = Some (Milestones mvp)\<rparr>"

definition agreed :: state where
  "agreed = asked\<lparr>stdin := [''Y'']\<rparr>"

section \<open>The retry loop\<close>

text \<open>
  While every reply is unparsable, the loop calls itself with the same count of retries
  and a longer history, so any result it had would be the result of that next call.
\<close>

lemma chat_loop_unparsable:
  assumes "chat_loop remote retries response s = Some y"
  shows "\<not> (retries < 5 \<and> (\<forall>n c. \<exists>b e. remote n c = Unparsable b e)
            \<and> (\<exists>h. chat_history s = JArr h))"
proof (induct rule: chat_loop.raw_induct [OF _ assms])
  case (1 loop remote retries response s y)
  show ?case
  proof
    assume a: "retries < 5 \<and> (\<forall>n c. \<exists>b e. remote n c = Unparsable b e)
                 \<and> (\<exists>h. chat_history s = JArr h)"
    then obtain b e where r: "remote (posts s) (chat_history s) = Unparsable b e"
      by blast
    from a obtain h where h: "chat_history s = JArr h"
      by blast
    let ?s1 = "print_line (''Error parsing API response: '' @ e) (s\<lparr>posts := posts s + 1\<rparr>)"
    let ?s2 = "?s1\<lparr>chat_history := JArr (h @ [entry ''user'' (retry_prompt e)])\<rparr>"
    have "loop remote retries (Some b) ?s2 = Some y"
      using "1.hyps"(2) a r h by (simp add: print_line_def)
    then have "\<not> (retries < 5 \<and> (\<forall>n c. \<exists>b e. remote n c = Unparsable b e)
                   \<and> (\<exists>h. chat_history ?s2 = JArr h))"
      by (rule "1.hyps"(1))
    with a show False
      by simp
  qed
qed

text \<open>
  Claim C1 says that \<^verbatim>\<open>chat_with_ai\<close> returns after a bounded number of iterations for
  every sequence of replies. The code does not: the handler of a reply that fails to parse
  appends the corrective message and continues without counting the attempt, so against a
  remote end whose every reply is unparsable the call never returns.
\<close>

theorem chat_with_ai_unparsable_forever:
  assumes "chat_history s = JArr h"
    and "\<forall>n c. \<exists>b e. remote n c = Unparsable b e"
  shows "chat_with_ai remote user_input s = None"
proof (cases "chat_with_ai remote user_input s")
  case None
  then show ?thesis .
next
  case (Some y)
  then have "chat_loop remote 0 None (s\<lparr>chat_history := JArr (h @ [entry ''user'' user_input])\<rparr>) = Some y"
    using assms(1) by (simp add: chat_with_ai_def)
  from chat_loop_unparsable [OF this] assms(2) show ?thesis
    by simp
qed

theorem chat_with_ai_unparsable_forever_witness:
  "chat_history demo = JArr [entry ''user'' ''hello'']
   \<and> (\<forall>n c. \<exists>b e. garbled n c = Unparsable b e)
   \<and> chat_with_ai garbled ''Greet me.'' demo = None"
  using chat_with_ai_unparsable_forever [of demo "[entry ''user'' ''hello'']" garbled "''Greet me.''"]
  by (simp add: demo_def garbled_def)

section \<open>Paths and their strings\<close>

lemma split_sep_not_Nil: "split_sep s \<noteq> []"
  by (induction s) (auto split: list.splits)

lemma split_sep_append:
  "CHR ''/'' \<notin> set x \<Longrightarrow> split_sep (x @ CHR ''/'' # rest) = x # split_sep rest"
proof (induction x)
  case Nil
  then show ?case by simp
next
  case (Cons a x)
  then show ?case by (auto simp: split_sep_not_Nil split: list.splits)
qed

lemma split_sep_plain: "CHR ''/'' \<notin> set x \<Longrightarrow> split_sep x = [x]"
  by (induction x) auto

lemma split_sep_joined:
  "CHR ''/'' \<notin> set x \<Longrightarrow> list_all component p \<Longrightarrow>
   split_sep (x @ concat (map (\<lambda>c. CHR ''/'' # c) p)) = x # p"
proof (induction p arbitrary: x)
  case Nil
  then show ?case by (simp add: split_sep_plain)
next
  case (Cons y ys)
  have "component y" and ys: "list_all component ys"
    using Cons.prems(2) by simp_all
  then have y: "CHR ''/'' \<notin> set y"
    by (simp add: component_def)
  from y ys have "split_sep (y @ concat (map (\<lambda>c. CHR ''/'' # c) ys)) = y # ys"
    by (rule Cons.IH)
  then show ?case
    using Cons.prems(1) by (simp add: split_sep_append)
qed

lemma parts_path_str: "list_all component p \<Longrightarrow> parts (path_str p) = p"
proof (cases p)
  case Nil
  then show ?thesis by (simp add: parts_def path_str_def)
next
  case (Cons x xs)
  assume c: "list_all component p"
  have "split_sep ([] @ concat (map (\<lambda>c. CHR ''/'' # c) p)) = [] # p"
    using c by (intro split_sep_joined) simp_all
  moreover have "filter (\<lambda>c. c \<noteq> [] \<and> c \<noteq> ''.'') p = p"
    using c by (simp add: list_all_iff component_def filter_id_conv)
  ultimately show ?thesis
    using Cons by (simp add: parts_def path_str_def)
qed

lemma path_str_not_Nil: "path_str p \<noteq> []"
  by (cases p) (simp_all add: path_str_def)

lemma joinpath_path_str: "list_all component p \<Longrightarrow> joinpath base (path_str p) = p"
proof -
  assume c: "list_all component p"
  have "path_str p \<noteq> [] \<and> hd (path_str p) = CHR ''/''"
    by (cases p) (simp_all add: path_str_def)
  then show ?thesis
    using c by (simp add: joinpath_def parts_path_str)
qed

text \<open>Every path the program builds consists of such components.\<close>

lemma split_sep_no_sep: "\<forall>c \<in> set (split_sep s). CHR ''/'' \<notin> set c"
  by (induction s) (auto split: list.splits)

lemma component_parts: "list_all component (parts s)"
  using split_sep_no_sep [of s] by (auto simp: parts_def list_all_iff component_def)

lemma component_joinpath: "list_all component base \<Longrightarrow> list_all component (joinpath base s)"
  by (simp add: joinpath_def component_parts)

section \<open>Writing files\<close>

lemma write_file_result: "write_file f p c = Inr f' \<Longrightarrow> f' = f(p \<mapsto> File c) \<and> p \<noteq> []"
  by (auto simp: write_file_def split: if_splits option.splits node.splits)

section \<open>Persistence\<close>

text \<open>
  Claim C9: for a state whose \<^verbatim>\<open>root_dir\<close> is set, \<^verbatim>\<open>save_project_state\<close> followed
  by \<^verbatim>\<open>load_project_state\<close>, in any process that runs in the same working directory
  on the filesystem the save left, gives back the same root directory and the same ordered
  history. The root directory is a path as pathlib builds it, and the save is one that
  succeeded in writing the state file.
\<close>

theorem save_load_round_trip:
  assumes root: "root_dir s = Some r"
    and comps: "list_all component r"
    and saved: "save_project_state s = (Returned (), s1)"
    and fresh: "fs s0 = fs s1" "cwd s0 = cwd s"
  shows "\<exists>s2. load_project_state loads s0 = (Returned True, s2)
              \<and> root_dir s2 = Some r \<and> chat_history s2 = chat_history s"
proof -
  let ?p = "joinpath (cwd s) STATE_FILE"
  from saved root obtain f
    where w: "write_file (fs s) ?p (Json (state_doc r (chat_history s))) = Inr f"
      and s1: "s1 = s\<lparr>fs := f\<rparr>"
    by (auto simp: save_project_state_def split: sum.splits)
  from write_file_result [OF w]
  have f: "f ?p = Some (File (Json (state_doc r (chat_history s))))" and ne: "?p \<noteq> []"
    by simp_all
  have at: "node_at (fs s0) (joinpath (cwd s0) STATE_FILE)
              = Some (File (Json (state_doc r (chat_history s))))"
    using f ne fresh s1 by (simp add: node_at_def)
  have root': "load_root (cwd s0) (JStr (path_str r)) (root_dir s0) = Inr (Some r)"
    using comps by (simp add: load_root_def joinpath_path_str path_str_not_Nil)
  show ?thesis
    using at root'
    by (simp add: load_project_state_def json_load_def state_doc_def dict_get_def print_line_def)
qed

theorem save_load_round_trip_witness:
  "root_dir demo = Some [''home'', ''proj'']
   \<and> list_all component [''home'', ''proj'']
   \<and> save_project_state demo = (Returned (), snd (save_project_state demo))
   \<and> (\<exists>s2. load_project_state (\<lambda>t. None) (restarted (snd (save_project_state demo))) = (Returned True, s2)
            \<and> root_dir s2 = Some [''home'', ''proj''] \<and> chat_history s2 = chat_history demo)"
proof -
  have r: "root_dir demo = Some [''home'', ''proj'']"
    by (simp add: demo_def)
  have c: "list_all component [''home'', ''proj'']"
    by (simp add: component_def)
  have s: "save_project_state demo = (Returned (), snd (save_project_state demo))"
    by (simp add: save_project_state_def demo_def write_file_def node_at_def parent_def
          joinpath_def parts_def STATE_FILE_def)
  have f: "fs (restarted (snd (save_project_state demo))) = fs (snd (save_project_state demo))"
    by (simp add: restarted_def)
  have w: "cwd (restarted (snd (save_project_state demo))) = cwd demo"
    by (simp add: restarted_def save_project_state_def split: option.splits sum.splits)
  from save_load_round_trip [OF r c s f w] r c s show ?thesis
    by blast
qed

section \<open>Transport failures\<close>

text \<open>
  When every attempt gets a response that \<^verbatim>\<open>raise_for_status\<close> rejects, the loop
  makes its five attempts, sleeps 2, 4, 8, 16 and 32 seconds after them, and returns
  \<^verbatim>\<open>None\<close>; the history keeps the user's message and gains nothing else.
\<close>

lemma chat_loop_request_errors:
  assumes "\<forall>n c. \<exists>b e. remote n c = Request_error b e"
  shows "retries + k = 5 \<Longrightarrow>
    \<exists>s'. chat_loop remote retries response s = Some (Returned None, s')
        \<and> slept s' = slept s @ map (\<lambda>i. 2 ^ i) [retries + 1 ..< 6]
        \<and> posts s' = posts s + k
        \<and> chat_history s' = chat_history s \<and> fs s' = fs s \<and> root_dir s' = root_dir s"
proof (induction k arbitrary: retries response s)
  case 0
  then show ?case
    by (subst chat_loop.simps) (simp add: print_line_def)
next
  case (Suc k)
  from assms obtain b e where r: "remote (posts s) (chat_history s) = Request_error b e"
    by blast
  have "\<exists>s1. transport_failed (retries + 1) e (Some b) (s\<lparr>posts := posts s + 1\<rparr>) = (Returned (), s1)
          \<and> slept s1 = slept s @ [2 ^ (retries + 1)] \<and> posts s1 = posts s + 1
          \<and> chat_history s1 = chat_history s \<and> fs s1 = fs s \<and> root_dir s1 = root_dir s"
    by (simp add: transport_failed_def Let_def sleep_def print_line_def)
  then obtain s1
    where t: "transport_failed (retries + 1) e (Some b) (s\<lparr>posts := posts s + 1\<rparr>) = (Returned (), s1)"
      and s1: "slept s1 = slept s @ [2 ^ (retries + 1)]" "posts s1 = posts s + 1"
        "chat_history s1 = chat_history s" "fs s1 = fs s" "root_dir s1 = root_dir s"
    by blast
  from Suc.prems have lt: "retries < 5" and k: "(retries + 1) + k = 5"
    by simp_all
  from Suc.IH [OF k, of "Some b" s1] obtain s'
    where l: "chat_loop remote (retries + 1) (Some b) s1 = Some (Returned None, s')"
      and e: "slept s' = slept s1 @ map (\<lambda>i. 2 ^ i) [retries + 1 + 1 ..< 6]"
        "posts s' = posts s1 + k" "chat_history s' = chat_history s1" "fs s' = fs s1"
        "root_dir s' = root_dir s1"
    by blast
  have "chat_loop remote retries response s = Some (Returned None, s')"
    using lt r t l by (subst chat_loop.simps) simp
  moreover have "[retries + 1 ..< 6] = (retries + 1) # [retries + 1 + 1 ..< 6]"
    using lt by (simp add: upt_conv_Cons)
  ultimately show ?case
    using e s1 by simp
qed

lemma chat_with_ai_request_errors:
  assumes "chat_history s = JArr h" and "\<forall>n c. \<exists>b e. remote n c = Request_error b e"
  shows "\<exists>s'. chat_with_ai remote user_input s = Some (Returned None, s')
        \<and> slept s' = slept s @ [2, 4, 8, 16, 32]
        \<and> posts s' = posts s + 5
        \<and> chat_history s' = JArr (h @ [entry ''user'' user_input])
        \<and> fs s' = fs s \<and> root_dir s' = root_dir s"
proof -
  have u: "[Suc 0 ..< 6] = [1, 2, 3, 4, 5]"
    by (simp add: upt_conv_Cons)
  from chat_loop_request_errors [OF assms(2), of 0 5 None
         "s\<lparr>chat_history := JArr (h @ [entry ''user'' user_input])\<rparr>"]
  show ?thesis
    using assms(1) by (simp add: chat_with_ai_def u)
qed

text \<open>
  Claim C3 says that in every turn whose attempts all fail at the transport level,
  \<^verbatim>\<open>chat_with_ai\<close> makes five attempts with the delays 2, 4, 8, 16, 32 and returns
  failure. When the first attempt of the call fails inside \<^verbatim>\<open>requests.post\<close> (a
  timeout or a refused connection), the handler reads the local \<^verbatim>\<open>response\<close>, to
  which nothing has been assigned yet: \<^verbatim>\<open>UnboundLocalError\<close> escapes after one
  attempt, with no delay and no further attempt.
\<close>

theorem chat_with_ai_unbound_response:
  assumes "chat_history s = JArr h"
    and "remote (posts s) (JArr (h @ [entry ''user'' user_input])) = Post_raised e"
  shows "chat_with_ai remote user_input s =
           Some (Raised UnboundLocalError,
                 s\<lparr>chat_history := JArr (h @ [entry ''user'' user_input]),
                   posts := posts s + 1,
                   out := out s @ [Line (''API communication error (attempt 1/5): '' @ e)]\<rparr>)"
  using assms
  by (simp add: chat_with_ai_def chat_loop.simps transport_failed_def print_line_def)

theorem chat_with_ai_unbound_response_witness:
  "chat_history demo = JArr [entry ''user'' ''hello'']
   \<and> unreachable (posts demo) (JArr ([entry ''user'' ''hello''] @ [entry ''user'' ''Greet me.'']))
       = Post_raised ''Connection refused''
   \<and> (\<exists>s'. chat_with_ai unreachable ''Greet me.'' demo = Some (Raised UnboundLocalError, s')
          \<and> slept s' = [] \<and> posts s' = 1)"
  using chat_with_ai_unbound_response [of demo "[entry ''user'' ''hello'']" unreachable
          "''Greet me.''" "''Connection refused''"]
  by (simp add: demo_def unreachable_def)

section \<open>Errors while creating files\<close>

text \<open>
  Claim C2 says that an I/O error on one pair of a \<^verbatim>\<open>create_files\<close> payload is
  reported for that path only, that the remaining pairs are still processed and that the
  process does not crash. The loop has no handler: in the project \<^verbatim>\<open>/home/proj\<close>, the
  payload that first writes the file \<^verbatim>\<open>notes\<close> and then asks for
  \<^verbatim>\<open>notes/todo.txt\<close> lets \<^verbatim>\<open>FileExistsError\<close> escape from the second pair; nothing is
  reported for it and the third pair is never reached.
\<close>

theorem create_files_stops_at_first_error:
  "fst (execute_action (Create_files clash) demo) = Raised FileExistsError
   \<and> fs (snd (execute_action (Create_files clash) demo)) [''home'', ''proj'', ''notes'']
       = Some (File (Text ''draft''))
   \<and> fs (snd (execute_action (Create_files clash) demo)) [''home'', ''proj'', ''README.md''] = None
   \<and> out (snd (execute_action (Create_files clash) demo))
       = [Line ''  - Created file: /home/proj/notes'']"
  by (simp add: clash_def demo_def joinpath_def parts_def CREATE_DIR_def mkdir_parents_def
        parent_def write_file_def node_at_def print_line_def path_str_def Let_def)

section \<open>Files directly in the project directory\<close>

lemma joinpath_name: "component c \<Longrightarrow> joinpath r c = r @ [c]"
  by (cases c) (auto simp: joinpath_def parts_def component_def split_sep_plain)

lemma write_file_in_dir:
  "node_at f r = Some Dir \<Longrightarrow> f (r @ [c]) \<noteq> Some Dir \<Longrightarrow>
   write_file f (r @ [c]) d = Inr (f(r @ [c] \<mapsto> File d))"
  by (auto simp: write_file_def parent_def split: option.splits node.splits)

lemma slug_q3: "title_slug q3_review @ ''.md'' = ''q3-review.md''"
  by (simp add: q3_review_def title_slug_def lower_def hyphenate_def lower_char_def or_default_def)

lemma text_q3:
  "plan_text q3_review =
     ''# Q3 Review\<newline>**Audience:** Execs\<newline>\<newline>---\<newline>\<newline>## Slide 1: Intro\<newline>\<newline>Hello\<newline>\<newline>---\<newline>\<newline>''"
  by (simp add: q3_review_def plan_text_def slide_block_def or_default_def enumerate_eq_zip)

text \<open>
  Claim C8: with \<^verbatim>\<open>root_dir\<close> set, the \<^verbatim>\<open>create_presentation_plan\<close> command for the
  title \<^verbatim>\<open>Q3 Review\<close>, the audience \<^verbatim>\<open>Execs\<close> and the one slide \<^verbatim>\<open>Intro\<close> /
  \<^verbatim>\<open>Hello\<close> writes the file \<^verbatim>\<open>q3-review.md\<close> in the project directory, and the file
  holds, in this order, the title heading, the audience line with its rule, and the slide
  section with \<^verbatim>\<open>Intro\<close> and \<^verbatim>\<open>Hello\<close>, closed by a horizontal rule. The project
  directory exists and the name is not taken by a directory, so that the file can be opened.
\<close>

theorem presentation_plan_q3_review:
  assumes "root_dir s = Some r"
    and "node_at (fs s) r = Some Dir"
    and "fs s (r @ [''q3-review.md'']) \<noteq> Some Dir"
  shows "\<exists>s'. execute_action (Create_presentation_plan q3_review) s = (Returned (), s')
          \<and> fs s' = (fs s)(r @ [''q3-review.md''] \<mapsto>
               File (Text (''# Q3 Review\<newline>'' @ ''**Audience:** Execs\<newline>\<newline>---\<newline>\<newline>''
                           @ ''## Slide 1: Intro\<newline>\<newline>'' @ ''Hello\<newline>\<newline>---\<newline>\<newline>'')))"
proof -
  have "joinpath r (title_slug q3_review @ ''.md'') = r @ [''q3-review.md'']"
    by (simp add: slug_q3 joinpath_name component_def)
  then show ?thesis
    using assms by (simp add: write_file_in_dir text_q3 print_line_def Let_def)
qed

theorem presentation_plan_q3_review_witness:
  "root_dir demo = Some [''home'', ''proj'']
   \<and> node_at (fs demo) [''home'', ''proj''] = Some Dir
   \<and> fs demo ([''home'', ''proj''] @ [''q3-review.md'']) \<noteq> Some Dir
   \<and> (\<exists>s'. execute_action (Create_presentation_plan q3_review) demo = (Returned (), s')
          \<and> fs s' [''home'', ''proj'', ''q3-review.md''] =
               Some (File (Text ''# Q3 Review\<newline>**Audience:** Execs\<newline>\<newline>---\<newline>\<newline>## Slide 1: Intro\<newline>\<newline>Hello\<newline>\<newline>---\<newline>\<newline>'')))"
proof -
  have h: "root_dir demo = Some [''home'', ''proj'']"
    "node_at (fs demo) [''home'', ''proj''] = Some Dir"
    "fs demo ([''home'', ''proj''] @ [''q3-review.md'']) \<noteq> Some Dir"
    by (simp_all add: demo_def node_at_def)
  from presentation_plan_q3_review [OF h] h show ?thesis
    by auto
qed

text \<open>
  Claim C7: with \<^verbatim>\<open>root_dir\<close> set, the \<^verbatim>\<open>milestones\<close> command with the payload
  \<^verbatim>\<open>{"milestones": [{"name": "MVP", "status": "In Progress", "notes": "half done"}]}\<close>
  leaves a milestone file that loads as exactly that payload, and of two successive
  \<^verbatim>\<open>milestones\<close> commands the file holds the payload of the second and nothing of the
  first. The project directory exists and the name of the milestone file is not taken by
  a directory, so that the file can be opened.
\<close>

theorem milestones_replace:
  assumes "root_dir s = Some r"
    and "node_at (fs s) r = Some Dir"
    and "fs s (r @ [MILESTONE_FILE]) \<noteq> Some Dir"
  shows "(\<exists>s1. execute_action (Milestones mvp) s = (Returned (), s1)
            \<and> fs s1 (r @ [MILESTONE_FILE]) = Some (File (Json mvp))
            \<and> json_load loads (Json mvp) = Inr mvp)
       \<and> (\<exists>s1 s2. execute_action (Milestones first) s = (Returned (), s1)
            \<and> execute_action (Milestones second) s1 = (Returned (), s2)
            \<and> fs s2 (r @ [MILESTONE_FILE]) = Some (File (Json second))
            \<and> json_load loads (Json second) = Inr second)"
proof -
  have j: "joinpath r MILESTONE_FILE = r @ [MILESTONE_FILE]"
    by (simp add: joinpath_name component_def MILESTONE_FILE_def)
  have one: "\<exists>s1. execute_action (Milestones p) s = (Returned (), s1)
            \<and> fs s1 (r @ [MILESTONE_FILE]) = Some (File (Json p))
            \<and> root_dir s1 = Some r \<and> node_at (fs s1) r = Some Dir" for p
    using assms by (auto simp: j write_file_in_dir print_line_def node_at_def Let_def)
  from one [of first] obtain s1
    where s1: "execute_action (Milestones first) s = (Returned (), s1)"
      "fs s1 (r @ [MILESTONE_FILE]) = Some (File (Json first))"
      "root_dir s1 = Some r" "node_at (fs s1) r = Some Dir"
    by blast
  then have "\<exists>s2. execute_action (Milestones second) s1 = (Returned (), s2)
            \<and> fs s2 (r @ [MILESTONE_FILE]) = Some (File (Json second))"
    by (simp add: j write_file_in_dir print_line_def Let_def)
  with s1(1) one [of mvp] show ?thesis
    by (auto simp: json_load_def)
qed

theorem milestones_replace_witness:
  "root_dir demo = Some [''home'', ''proj'']
   \<and> node_at (fs demo) [''home'', ''proj''] = Some Dir
   \<and> fs demo ([''home'', ''proj''] @ [MILESTONE_FILE]) \<noteq> Some Dir
   \<and> (\<exists>s1. execute_action (Milestones mvp) demo = (Returned (), s1)
          \<and> fs s1 [''home'', ''proj'', ''milestones.json''] = Some (File (Json mvp)))
   \<and> (\<exists>s1 s2. execute_action (Milestones mvp) demo = (Returned (), s1)
          \<and> execute_action (Milestones backlog) s1 = (Returned (), s2)
          \<and> fs s2 [''home'', ''proj'', ''milestones.json''] = Some (File (Json backlog)))"
proof -
  have h: "root_dir demo = Some [''home'', ''proj'']"
    "node_at (fs demo) [''home'', ''proj''] = Some Dir"
    "fs demo ([''home'', ''proj''] @ [MILESTONE_FILE]) \<noteq> Some Dir"
    by (simp_all add: demo_def node_at_def MILESTONE_FILE_def)
  have m: "[''home'', ''proj''] @ [MILESTONE_FILE] = [''home'', ''proj'', ''milestones.json'']"
    by (simp add: MILESTONE_FILE_def)
  from milestones_replace [OF h, of "\<lambda>t. None" mvp backlog] h show ?thesis
    unfolding m by blast
qed

section \<open>Commands before a project exists\<close>

text \<open>
  Claim C4: while \<^verbatim>\<open>root_dir\<close> is unset, each of the commands \<^verbatim>\<open>create_files\<close>,
  \<^verbatim>\<open>list_files\<close>, \<^verbatim>\<open>milestones\<close> and \<^verbatim>\<open>create_presentation_plan\<close> prints one line
  that reports the problem and returns; nothing else of the state changes, the
  filesystem in particular.
\<close>

theorem no_root_no_effect:
  assumes "root_dir s = None" and "needs_root a"
  shows "\<exists>l. execute_action a s = (Returned (), s\<lparr>out := out s @ [Line l]\<rparr>)"
  using assms by (cases a) (auto simp: print_line_def)

theorem no_root_no_effect_witness:
  "root_dir (restarted demo) = None \<and> needs_root (Milestones mvp)
   \<and> (\<exists>l. execute_action (Milestones mvp) (restarted demo)
            = (Returned (), (restarted demo)\<lparr>out := out (restarted demo) @ [Line l]\<rparr>))"
proof -
  have h: "root_dir (restarted demo) = None" "needs_root (Milestones mvp)"
    by (simp_all add: restarted_def)
  from no_root_no_effect [OF h] h show ?thesis
    by blast
qed

section \<open>What the actions leave in the filesystem\<close>

text \<open>
  Creating directories never changes a file and never removes a directory, and the path it
  was asked for is a directory afterwards.
\<close>

lemma mkdirs_files:
  "mkdirs f pre cs = Inr f' \<Longrightarrow> f' q = Some (File d) \<Longrightarrow> f q = Some (File d)"
proof (induction cs arbitrary: f pre)
  case Nil
  then show ?case by simp
next
  case (Cons c cs)
  show ?case
  proof (cases "f (pre @ [c])")
    case None
    with Cons.prems have "mkdirs (f(pre @ [c] \<mapsto> Dir)) (pre @ [c]) cs = Inr f'"
      by simp
    from Cons.IH [OF this Cons.prems(2)] show ?thesis
      by (simp split: if_splits)
  next
    case (Some n)
    with Cons.prems have "mkdirs f (pre @ [c]) cs = Inr f'"
      by (cases n) simp_all
    from Cons.IH [OF this Cons.prems(2)] show ?thesis .
  qed
qed

lemma mkdirs_dirs:
  "mkdirs f pre cs = Inr f' \<Longrightarrow> f q = Some Dir \<Longrightarrow> f' q = Some Dir"
proof (induction cs arbitrary: f pre)
  case Nil
  then show ?case by simp
next
  case (Cons c cs)
  show ?case
  proof (cases "f (pre @ [c])")
    case None
    with Cons.prems have m: "mkdirs (f(pre @ [c] \<mapsto> Dir)) (pre @ [c]) cs = Inr f'"
      by simp
    have "(f(pre @ [c] \<mapsto> Dir)) q = Some Dir"
      using Cons.prems(2) by simp
    with m show ?thesis
      by (rule Cons.IH)
  next
    case (Some n)
    with Cons.prems have "mkdirs f (pre @ [c]) cs = Inr f'"
      by (cases n) simp_all
    from Cons.IH [OF this Cons.prems(2)] show ?thesis .
  qed
qed

lemma mkdirs_made:
  "mkdirs f pre cs = Inr f' \<Longrightarrow> cs \<noteq> [] \<Longrightarrow> f' (pre @ cs) = Some Dir"
proof (induction cs arbitrary: f pre)
  case Nil
  then show ?case by simp
next
  case (Cons c cs)
  obtain g where g: "mkdirs g (pre @ [c]) cs = Inr f'" and d: "g (pre @ [c]) = Some Dir"
  proof (cases "f (pre @ [c])")
    case None
    with Cons.prems(1) have "mkdirs (f(pre @ [c] \<mapsto> Dir)) (pre @ [c]) cs = Inr f'"
      by simp
    then show ?thesis
      by (rule that [of "f(pre @ [c] \<mapsto> Dir)"]) simp
  next
    case (Some n)
    with Cons.prems(1) have n: "n = Dir"
      by (cases n) simp_all
    with Some Cons.prems(1) have "mkdirs f (pre @ [c]) cs = Inr f'"
      by simp
    then show ?thesis
      using Some n by (intro that [of f]) simp_all
  qed
  show ?case
  proof (cases cs)
    case Nil
    with g d show ?thesis by simp
  next
    case (Cons c' cs')
    then have "cs \<noteq> []" by simp
    from Cons.IH [OF g this] show ?thesis by simp
  qed
qed

lemma mkdir_parents_made: "mkdir_parents f p = Inr f' \<Longrightarrow> node_at f' p = Some Dir"
  using mkdirs_made [of f "[]" p f'] by (cases p) (simp_all add: mkdir_parents_def node_at_def)

lemma create_items_no_sentinel:
  "create_items root payload s = (res, s') \<Longrightarrow> fs s' q = Some (File (Text CREATE_DIR)) \<Longrightarrow>
   fs s q = Some (File (Text CREATE_DIR))"
proof (induction payload arbitrary: s)
  case Nil
  then show ?case by simp
next
  case (Cons pc rest)
  obtain p c where pc: "pc = (p, c)" by (cases pc)
  show ?case
  proof (cases "c = CREATE_DIR")
    case True
    show ?thesis
    proof (cases "mkdir_parents (fs s) (joinpath root p)")
      case (Inl e)
      with Cons.prems pc True show ?thesis by (simp add: Let_def)
    next
      case (Inr f1)
      let ?s1 = "print_line (''  - Created directory: '' @ path_str (joinpath root p)) (s\<lparr>fs := f1\<rparr>)"
      from Cons.prems(1) pc True Inr have "create_items root rest ?s1 = (res, s')"
        by (simp add: Let_def)
      from Cons.IH [OF this Cons.prems(2)] have "f1 q = Some (File (Text CREATE_DIR))"
        by (simp add: print_line_def)
      with Inr show ?thesis
        by (auto simp: mkdir_parents_def dest: mkdirs_files)
    qed
  next
    case False
    show ?thesis
    proof (cases "mkdir_parents (fs s) (parent (joinpath root p))")
      case (Inl e)
      with Cons.prems pc False show ?thesis by (simp add: Let_def)
    next
      case (Inr f1)
      note f1 = this
      have keep: "f1 q = Some (File (Text CREATE_DIR)) \<Longrightarrow> fs s q = Some (File (Text CREATE_DIR))"
        using f1 by (auto simp: mkdir_parents_def dest: mkdirs_files)
      show ?thesis
      proof (cases "write_file f1 (joinpath root p) (Text c)")
        case (Inl e)
        with Cons.prems pc False f1 keep show ?thesis by (auto simp: Let_def)
      next
        case (Inr f2)
        let ?s2 = "print_line (''  - Created file: '' @ path_str (joinpath root p)) (s\<lparr>fs := f2\<rparr>)"
        from Cons.prems(1) pc False f1 Inr have "create_items root rest ?s2 = (res, s')"
          by (simp add: Let_def)
        from Cons.IH [OF this Cons.prems(2)] have "f2 q = Some (File (Text CREATE_DIR))"
          by (simp add: print_line_def)
        moreover from write_file_result [OF Inr] have "f2 = f1(joinpath root p \<mapsto> File (Text c))"
          by simp
        ultimately have "f1 q = Some (File (Text CREATE_DIR))"
          using False by (simp split: if_splits)
        then show ?thesis by (rule keep)
      qed
    qed
  qed
qed

lemma write_file_dirs: "write_file f p c = Inr f' \<Longrightarrow> f q = Some Dir \<Longrightarrow> f' q = Some Dir"
  by (auto simp: write_file_def split: if_splits option.splits node.splits)

lemma create_items_dirs:
  "create_items root payload s = (res, s') \<Longrightarrow> fs s q = Some Dir \<Longrightarrow> fs s' q = Some Dir"
proof (induction payload arbitrary: s)
  case Nil
  then show ?case by simp
next
  case (Cons pc rest)
  obtain p c where pc: "pc = (p, c)" by (cases pc)
  show ?case
  proof (cases "c = CREATE_DIR")
    case True
    show ?thesis
    proof (cases "mkdir_parents (fs s) (joinpath root p)")
      case (Inl e)
      with Cons.prems pc True show ?thesis by (auto simp: Let_def)
    next
      case (Inr f1)
      let ?s1 = "print_line (''  - Created directory: '' @ path_str (joinpath root p)) (s\<lparr>fs := f1\<rparr>)"
      from Cons.prems(1) pc True Inr have r: "create_items root rest ?s1 = (res, s')"
        by (simp add: Let_def)
      from Inr Cons.prems(2) have "fs ?s1 q = Some Dir"
        by (auto simp: mkdir_parents_def print_line_def dest: mkdirs_dirs)
      with r show ?thesis
        by (rule Cons.IH)
    qed
  next
    case False
    show ?thesis
    proof (cases "mkdir_parents (fs s) (parent (joinpath root p))")
      case (Inl e)
      with Cons.prems pc False show ?thesis by (auto simp: Let_def)
    next
      case (Inr f1)
      note f1 = this
      with Cons.prems(2) have d1: "f1 q = Some Dir"
        by (auto simp: mkdir_parents_def dest: mkdirs_dirs)
      show ?thesis
      proof (cases "write_file f1 (joinpath root p) (Text c)")
        case (Inl e)
        with Cons.prems(1) pc False f1 d1 show ?thesis by (auto simp: Let_def)
      next
        case (Inr f2)
        let ?s2 = "print_line (''  - Created file: '' @ path_str (joinpath root p)) (s\<lparr>fs := f2\<rparr>)"
        from Cons.prems(1) pc False f1 Inr have r: "create_items root rest ?s2 = (res, s')"
          by (simp add: Let_def)
        from write_file_dirs [OF Inr d1] have "fs ?s2 q = Some Dir"
          by (simp add: print_line_def)
        with r show ?thesis
          by (rule Cons.IH)
      qed
    qed
  qed
qed

lemma create_items_sentinel_dir:
  "create_items root payload s = (Returned (), s') \<Longrightarrow> (p, CREATE_DIR) \<in> set payload \<Longrightarrow>
   node_at (fs s') (joinpath root p) = Some Dir"
proof (induction payload arbitrary: s)
  case Nil
  then show ?case by simp
next
  case (Cons pc rest)
  obtain p' c where pc: "pc = (p', c)" by (cases pc)
  show ?case
  proof (cases "c = CREATE_DIR")
    case True
    show ?thesis
    proof (cases "mkdir_parents (fs s) (joinpath root p')")
      case (Inl e)
      with Cons.prems pc True show ?thesis by (simp add: Let_def)
    next
      case (Inr f1)
      let ?s1 = "print_line (''  - Created directory: '' @ path_str (joinpath root p')) (s\<lparr>fs := f1\<rparr>)"
      from Cons.prems(1) pc True Inr have r: "create_items root rest ?s1 = (Returned (), s')"
        by (simp add: Let_def)
      show ?thesis
      proof (cases "p = p'")
        case same: True
        from mkdir_parents_made [OF Inr] have "node_at (fs ?s1) (joinpath root p) = Some Dir"
          by (simp add: same print_line_def)
        then show ?thesis
          using create_items_dirs [OF r, of "joinpath root p"]
          by (auto simp: node_at_def split: if_splits)
      next
        case False
        with Cons.prems(2) pc have "(p, CREATE_DIR) \<in> set rest" by simp
        with r show ?thesis by (rule Cons.IH)
      qed
    qed
  next
    case False
    with Cons.prems(2) pc have m: "(p, CREATE_DIR) \<in> set rest" by auto
    from Cons.prems(1) pc False obtain t where "create_items root rest t = (Returned (), s')"
      by (auto simp: Let_def split: sum.splits)
    then show ?thesis using m by (rule Cons.IH)
  qed
qed

lemma plan_text_not_sentinel: "plan_text p \<noteq> CREATE_DIR"
  by (simp add: plan_text_def CREATE_DIR_def)

lemma save_no_sentinel:
  "save_project_state s = (res, s') \<Longrightarrow> fs s' q = Some (File (Text CREATE_DIR)) \<Longrightarrow>
   fs s q = Some (File (Text CREATE_DIR))"
  by (auto simp: save_project_state_def split: option.splits sum.splits if_splits
        dest!: write_file_result)

lemma input_frame: "input p s = (res, s') \<Longrightarrow> fs s' = fs s \<and> root_dir s' = root_dir s \<and> chat_history s' = chat_history s \<and> cwd s' = cwd s"
  by (auto simp: input_def Let_def split: list.splits)

lemma execute_action_no_sentinel:
  "execute_action a s = (res, s') \<Longrightarrow> fs s' q = Some (File (Text CREATE_DIR)) \<Longrightarrow>
   fs s q = Some (File (Text CREATE_DIR))"
proof (cases a)
  case (Init_project n)
  assume e: "execute_action a s = (res, s')" and q: "fs s' q = Some (File (Text CREATE_DIR))"
  obtain oc s1 where i: "(if n = None \<or> n = Some [] then input ''What's the name of the new project? '' s
            else (Returned (or_default n []), s)) = (oc, s1)"
    by fastforce
  then have f1: "fs s1 = fs s"
    by (auto split: if_splits dest: input_frame)
  show ?thesis
  proof (cases oc)
    case (Raised x)
    with e i Init_project f1 q show ?thesis by auto
  next
    case (Returned nm)
    let ?r = "joinpath (cwd s1) nm"
    show ?thesis
    proof (cases "mkdir_parents (fs s1) ?r")
      case (Inl x)
      with e i Init_project Returned f1 q show ?thesis by (auto simp: Let_def)
    next
      case (Inr f2)
      let ?s3 = "print_line (''Project directory created at: '' @ path_str ?r) (s1\<lparr>root_dir := Some ?r, fs := f2\<rparr>)"
      from e i Init_project Returned Inr have "save_project_state ?s3 = (res, s')"
        by (simp add: Let_def)
      from save_no_sentinel [OF this q] have "f2 q = Some (File (Text CREATE_DIR))"
        by (simp add: print_line_def)
      with Inr f1 show ?thesis
        by (auto simp: mkdir_parents_def dest: mkdirs_files)
    qed
  qed
next
  case (Create_files payload)
  assume "execute_action a s = (res, s')" and "fs s' q = Some (File (Text CREATE_DIR))"
  with Create_files show ?thesis
    by (auto simp: print_line_def split: option.splits dest: create_items_no_sentinel)
next
  case List_files
  assume "execute_action a s = (res, s')" and "fs s' q = Some (File (Text CREATE_DIR))"
  with List_files show ?thesis
    by (auto simp: print_line_def Let_def split: option.splits)
next
  case (Milestones payload)
  assume "execute_action a s = (res, s')" and "fs s' q = Some (File (Text CREATE_DIR))"
  with Milestones show ?thesis
    by (auto simp: print_line_def print_exn_def Let_def split: option.splits sum.splits if_splits
          dest!: write_file_result)
next
  case (Create_presentation_plan payload)
  assume "execute_action a s = (res, s')" and "fs s' q = Some (File (Text CREATE_DIR))"
  with Create_presentation_plan show ?thesis
    by (auto simp: print_line_def print_exn_def Let_def plan_text_not_sentinel
          split: option.splits sum.splits if_splits dest!: write_file_result)
next
  case No_action
  assume "execute_action a s = (res, s')" and "fs s' q = Some (File (Text CREATE_DIR))"
  with No_action show ?thesis by auto
next
  case (Unknown_command c)
  assume "execute_action a s = (res, s')" and "fs s' q = Some (File (Text CREATE_DIR))"
  with Unknown_command show ?thesis by (auto simp: print_line_def)
qed

text \<open>
  Claim C10: \<^verbatim>\<open>create_files\<close> takes a pair whose content is the marker
  \<^verbatim>\<open>__CREATE_DIR__\<close> to the directory branch, so the marker is never what it writes
  into a file. No action makes a path hold the marker as its text that did not hold it
  before, and after a \<^verbatim>\<open>create_files\<close> that ran to its end in a project, every path
  of the payload whose content is the marker is a directory.
\<close>

theorem sentinel_never_written:
  "(execute_action a s = (res, s') \<longrightarrow> fs s q \<noteq> Some (File (Text CREATE_DIR))
      \<longrightarrow> fs s' q \<noteq> Some (File (Text CREATE_DIR)))
   \<and> (root_dir s = Some r \<longrightarrow> execute_action (Create_files payload) s = (Returned (), s2)
      \<longrightarrow> (p, CREATE_DIR) \<in> set payload \<longrightarrow> node_at (fs s2) (joinpath r p) = Some Dir)"
  using execute_action_no_sentinel [of a s res s' q] create_items_sentinel_dir [of r payload s s2 p]
  by auto

theorem sentinel_never_written_witness:
  "execute_action (Create_files starter) demo
     = (Returned (), snd (execute_action (Create_files starter) demo))
   \<and> fs demo [''home'', ''proj'', ''src''] \<noteq> Some (File (Text CREATE_DIR))
   \<and> fs (snd (execute_action (Create_files starter) demo)) [''home'', ''proj'', ''src'']
       \<noteq> Some (File (Text CREATE_DIR))
   \<and> root_dir demo = Some [''home'', ''proj'']
   \<and> (''src'', CREATE_DIR) \<in> set starter
   \<and> node_at (fs (snd (execute_action (Create_files starter) demo)))
        (joinpath [''home'', ''proj''] ''src'') = Some Dir"
proof -
  have e: "execute_action (Create_files starter) demo
     = (Returned (), snd (execute_action (Create_files starter) demo))"
    by (simp add: starter_def demo_def joinpath_def parts_def CREATE_DIR_def mkdir_parents_def
          parent_def write_file_def node_at_def print_line_def path_str_def Let_def)
  have h: "fs demo [''home'', ''proj'', ''src''] \<noteq> Some (File (Text CREATE_DIR))"
    "root_dir demo = Some [''home'', ''proj'']" "(''src'', CREATE_DIR) \<in> set starter"
    by (simp_all add: demo_def starter_def)
  from sentinel_never_written [of "Create_files starter" demo "Returned ()"
      "snd (execute_action (Create_files starter) demo)" "[''home'', ''proj'', ''src'']"
      "[''home'', ''proj'']" starter "snd (execute_action (Create_files starter) demo)" "''src''"]
    e h
  show ?thesis
    by blast
qed

section \<open>The approval gate\<close>

text \<open>
  Claim C5: for a reply that requires approval, the filesystem changes only if the
  operator's answer is \<^verbatim>\<open>y\<close> (in either case); after any other answer to a proposed
  action the turn ends normally with the filesystem as it was and with exactly one
  message, the fixed notice, appended to the history.
\<close>

theorem approval_gate:
  assumes "requires_approval r" and "respond (Some r) s = (res, s')"
  shows "(fs s' = fs s \<or> (\<exists>ans rest. stdin s = ans # rest \<and> lower ans = ''y''))
       \<and> (\<forall>a ans rest h. action r = Some a \<longrightarrow> stdin s = ans # rest \<longrightarrow> lower ans \<noteq> ''y''
             \<longrightarrow> chat_history s = JArr h
             \<longrightarrow> res = Returned () \<and> fs s' = fs s
                 \<and> chat_history s' = JArr (h @ [entry ''user'' DECLINED]))"
  using assms
  by (auto simp: respond_def input_def print_line_def Let_def
        split: option.splits list.splits if_splits sum.splits)

theorem approval_gate_witness:
  "requires_approval proposal
   \<and> respond (Some proposal) asked = (Returned (), snd (respond (Some proposal) asked))
   \<and> action proposal = Some (Create_files starter) \<and> stdin asked = [''n''] \<and> lower ''n'' \<noteq> ''y''
   \<and> chat_history asked = JArr [entry ''user'' ''hello'']
   \<and> fs (snd (respond (Some proposal) asked)) = fs asked
   \<and> chat_history (snd (respond (Some proposal) asked))
       = JArr ([entry ''user'' ''hello''] @ [entry ''user'' DECLINED])"
proof -
  have r: "requires_approval proposal" "action proposal = Some (Create_files starter)"
    by (simp_all add: proposal_def)
  have e: "respond (Some proposal) asked = (Returned (), snd (respond (Some proposal) asked))"
    by (simp add: asked_def demo_def proposal_def respond_def input_def print_line_def Let_def
          lower_def lower_char_def entry_def DECLINED_def starter_def describe_files_def)
  have h: "stdin asked = [''n'']" "lower ''n'' \<noteq> ''y''"
    "chat_history asked = JArr [entry ''user'' ''hello'']"
    by (simp_all add: asked_def demo_def lower_def lower_char_def)
  from approval_gate [OF r(1) e] r e h show ?thesis
    by blast
qed

section \<open>When the state file is written\<close>

lemma save_persists:
  "save_project_state s = (Returned (), s') \<Longrightarrow> root_dir s = Some r \<Longrightarrow> persisted s'"
  by (auto simp: save_project_state_def persisted_def on_disk_def split: sum.splits
        dest!: write_file_result)

lemma save_root: "save_project_state s = (res, s') \<Longrightarrow> root_dir s' = root_dir s"
  by (auto simp: save_project_state_def split: option.splits sum.splits)

lemma init_persists:
  assumes "execute_action (Init_project n) s = (Returned (), s')"
  shows "persisted s'"
proof -
  obtain oc s1 where i: "(if n = None \<or> n = Some [] then input ''What's the name of the new project? '' s
            else (Returned (or_default n []), s)) = (oc, s1)"
    by fastforce
  with assms obtain nm where oc: "oc = Returned nm"
    by (cases oc) auto
  let ?r = "joinpath (cwd s1) nm"
  from assms i oc obtain f2 where "mkdir_parents (fs s1) ?r = Inr f2"
    by (cases "mkdir_parents (fs s1) ?r") (auto simp: Let_def)
  with assms i oc have "save_project_state
      (print_line (''Project directory created at: '' @ path_str ?r) (s1\<lparr>root_dir := Some ?r, fs := f2\<rparr>))
      = (Returned (), s')"
    by (simp add: Let_def)
  then show ?thesis
    by (rule save_persists) (simp add: print_line_def)
qed

text \<open>
  Both branches of the main loop that execute an action run \<^verbatim>\<open>execute_action\<close> and then
  \<^verbatim>\<open>save_project_state\<close>.
\<close>

lemma execute_and_save_persists:
  assumes e: "execute_and_save a t = (Returned (), t')" and r: "root_dir t' \<noteq> None"
  shows "persisted t'"
proof -
  from e obtain v where v: "save_project_state v = (Returned (), t')"
    by (auto simp: execute_and_save_def split: prod.splits outcome.splits)
  with r obtain p where "root_dir v = Some p"
    by (auto dest: save_root)
  with v show ?thesis by (rule save_persists)
qed

lemma respond_without_approval:
  "\<not> requires_approval q \<Longrightarrow> action q = Some a \<Longrightarrow>
   respond (Some q) t = execute_and_save a (print_line (''\<newline>AI: '' @ message q) t)"
  by (simp add: respond_def Let_def)

lemma respond_approved:
  assumes "requires_approval p" and "action p = Some a" and "stdin v = yes # left"
    and "lower yes = ''y''"
  shows "\<exists>w. respond (Some p) v = execute_and_save a w"
  using assms by (auto simp: respond_def input_def print_line_def Let_def)

text \<open>
  Claim C6 says that the state file is also overwritten after a declined approval, so that
  the file always holds the history entry of the latest decision. The branch of a decline
  appends its notice to the history in memory and does not call
  \<^verbatim>\<open>save_project_state\<close>: the file keeps the history as it was saved before, without
  the notice.
\<close>

theorem decline_not_persisted:
  "persisted asked
   \<and> fst (respond (Some proposal) asked) = Returned ()
   \<and> chat_history (snd (respond (Some proposal) asked))
       = JArr [entry ''user'' ''hello'', entry ''user'' DECLINED]
   \<and> on_disk (snd (respond (Some proposal) asked))
       = Some (File (Json (state_doc [''home'', ''proj''] (JArr [entry ''user'' ''hello'']))))
   \<and> \<not> persisted (snd (respond (Some proposal) asked))"
  by (simp add: persisted_def on_disk_def asked_def demo_def proposal_def respond_def input_def
        print_line_def Let_def lower_def lower_char_def joinpath_def parts_def STATE_FILE_def
        state_doc_def entry_def DECLINED_def starter_def action_description.simps describe_files_def)

text \<open>
  Claim C6 as the code has it: the state file holds the state in memory after
  \<^verbatim>\<open>init_project\<close> has run to its end, and after every turn of the main loop that
  executed an action and ended with a project set, be it an action that needed no approval
  or one the operator approved; a declined approval leaves the state file as it was.
\<close>

theorem state_file_written:
  "(execute_action (Init_project n) s = (Returned (), s') \<longrightarrow> persisted s')
   \<and> (\<not> requires_approval q \<longrightarrow> action q \<noteq> None \<longrightarrow> respond (Some q) t = (Returned (), t')
        \<longrightarrow> root_dir t' \<noteq> None \<longrightarrow> persisted t')
   \<and> (requires_approval p \<longrightarrow> action p \<noteq> None \<longrightarrow> stdin v = yes # left \<longrightarrow> lower yes = ''y''
        \<longrightarrow> respond (Some p) v = (Returned (), v') \<longrightarrow> root_dir v' \<noteq> None \<longrightarrow> persisted v')
   \<and> (requires_approval r \<longrightarrow> action r \<noteq> None \<longrightarrow> stdin u = ans # rest \<longrightarrow> lower ans \<noteq> ''y''
        \<longrightarrow> respond (Some r) u = (res, u') \<longrightarrow> on_disk u' = on_disk u)"
proof (intro conjI impI)
  assume "execute_action (Init_project n) s = (Returned (), s')"
  then show "persisted s'" by (rule init_persists)
next
  assume q: "\<not> requires_approval q" "action q \<noteq> None"
    and e: "respond (Some q) t = (Returned (), t')" and r: "root_dir t' \<noteq> None"
  from q(2) obtain a where "action q = Some a" by blast
  from respond_without_approval [OF q(1) this] e
  have "execute_and_save a (print_line (''\<newline>AI: '' @ message q) t) = (Returned (), t')"
    by simp
  then show "persisted t'" using r by (rule execute_and_save_persists)
next
  assume p: "requires_approval p" "action p \<noteq> None" "stdin v = yes # left" "lower yes = ''y''"
    and e: "respond (Some p) v = (Returned (), v')" and r: "root_dir v' \<noteq> None"
  from p(2) obtain a where "action p = Some a" by blast
  from respond_approved [OF p(1) this p(3) p(4)] e obtain w
    where "execute_and_save a w = (Returned (), v')"
    by auto
  then show "persisted v'" using r by (rule execute_and_save_persists)
next
  assume "requires_approval r" "action r \<noteq> None" "stdin u = ans # rest" "lower ans \<noteq> ''y''"
    "respond (Some r) u = (res, u')"
  then show "on_disk u' = on_disk u"
    by (auto simp: respond_def input_def print_line_def Let_def on_disk_def
          split: option.splits list.splits if_splits sum.splits)
qed

theorem state_file_written_witness:
  "execute_action (Init_project (Some ''proj'')) empty_home
     = (Returned (), snd (execute_action (Init_project (Some ''proj'')) empty_home))
   \<and> persisted (snd (execute_action (Init_project (Some ''proj'')) empty_home))
   \<and> \<not> requires_approval report \<and> action report \<noteq> None
   \<and> respond (Some report) demo = (Returned (), snd (respond (Some report) demo))
   \<and> root_dir (snd (respond (Some report) demo)) \<noteq> None
   \<and> persisted (snd (respond (Some report) demo))
   \<and> requires_approval proposal \<and> action proposal \<noteq> None
   \<and> stdin agreed = ''Y'' # [] \<and> lower ''Y'' = ''y''
   \<and> respond (Some proposal) agreed = (Returned (), snd (respond (Some proposal) agreed))
   \<and> root_dir (snd (respond (Some proposal) agreed)) \<noteq> None
   \<and> persisted (snd (respond (Some proposal) agreed))
   \<and> stdin asked = ''n'' # [] \<and> lower ''n'' \<noteq> ''y''
   \<and> on_disk (snd (respond (Some proposal) asked)) = on_disk asked"
proof -
  have i: "execute_action (Init_project (Some ''proj'')) empty_home
     = (Returned (), snd (execute_action (Init_project (Some ''proj'')) empty_home))"
    by (simp add: empty_home_def or_default_def joinpath_def parts_def mkdir_parents_def
          save_project_state_def write_file_def node_at_def parent_def print_line_def
          STATE_FILE_def Let_def)
  have q: "\<not> requires_approval report" "action report \<noteq> None"
    by (simp_all add: report_def)
  have x: "respond (Some report) demo = (Returned (), snd (respond (Some report) demo))"
    "root_dir (snd (respond (Some report) demo)) \<noteq> None"
    by (simp_all add: respond_def report_def execute_and_save_def demo_def joinpath_def parts_def
          parent_def write_file_def node_at_def print_line_def save_project_state_def
          STATE_FILE_def MILESTONE_FILE_def Let_def)
  have p: "requires_approval proposal" "action proposal \<noteq> None" "stdin agreed = ''Y'' # []"
    "lower ''Y'' = ''y''" "stdin asked = ''n'' # []" "lower ''n'' \<noteq> ''y''"
    by (simp_all add: proposal_def agreed_def asked_def lower_def lower_char_def)
  have y: "respond (Some proposal) agreed = (Returned (), snd (respond (Some proposal) agreed))"
    "root_dir (snd (respond (Some proposal) agreed)) \<noteq> None"
    by (simp_all add: respond_def proposal_def agreed_def asked_def input_def execute_and_save_def
          starter_def demo_def joinpath_def parts_def CREATE_DIR_def mkdir_parents_def parent_def
          write_file_def node_at_def print_line_def path_str_def save_project_state_def
          STATE_FILE_def lower_def lower_char_def describe_files_def Let_def)
  have e: "respond (Some proposal) asked
             = (fst (respond (Some proposal) asked), snd (respond (Some proposal) asked))"
    by simp
  from state_file_written [where n = "Some ''proj''" and s = empty_home
      and s' = "snd (execute_action (Init_project (Some ''proj'')) empty_home)"
      and q = report and t = demo and t' = "snd (respond (Some report) demo)"
      and p = proposal and v = agreed and yes = "''Y''" and left = "[]"
      and v' = "snd (respond (Some proposal) agreed)"
      and r = proposal and ans = "''n''" and rest = "[]" and u = asked
      and res = "fst (respond (Some proposal) asked)"
      and u' = "snd (respond (Some proposal) asked)"]
    i q x p y e
  show ?thesis
    by blast
qed

end
